theory Spec2Isabelle
  imports Complex_Main
begin

section \<open>The fragment shader of the reflective-disc demo\<close>

text \<open>
  The fragment shader in \<^verbatim>\<open>createRaytracingShaderMaterial\<close> (src/main.js) is embedded
  function by function. A GLSL \<^verbatim>\<open>float\<close> is modelled as a \<^typ>\<open>real\<close>: arithmetic is exact,
  rounding is not modelled. An operation with no finite result (division by zero,
  \<^verbatim>\<open>acos\<close> outside \<open>[-1, 1]\<close>) yields \<open>None\<close>, and \<open>None\<close> propagates to the result of the
  function that evaluated it.
\<close>

subsection \<open>Vectors and the GLSL built-ins the shader calls\<close>

datatype vec3 = Vec3 (vx: real) (vy: real) (vz: real)

datatype vec4 = Vec4 real real real real

definition vadd :: "vec3 \<Rightarrow> vec3 \<Rightarrow> vec3" where
  "vadd a b = Vec3 (vx a + vx b) (vy a + vy b) (vz a + vz b)"

definition vsub :: "vec3 \<Rightarrow> vec3 \<Rightarrow> vec3" where
  "vsub a b = Vec3 (vx a - vx b) (vy a - vy b) (vz a - vz b)"

text \<open>\<^verbatim>\<open>v * k\<close> and \<^verbatim>\<open>k * v\<close> for a vector \<open>v\<close> and a scalar \<open>k\<close>: componentwise.\<close>

definition vmuls :: "vec3 \<Rightarrow> real \<Rightarrow> vec3" where
  "vmuls v k = Vec3 (vx v * k) (vy v * k) (vz v * k)"

text \<open>\<^verbatim>\<open>a / b\<close> on floats; a zero divisor gives no finite value.\<close>

definition fdiv :: "real \<Rightarrow> real \<Rightarrow> real option" where
  "fdiv a b = (if b = 0 then None else Some (a / b))"

text \<open>\<^verbatim>\<open>v / k\<close> for a vector \<open>v\<close> and a scalar \<open>k\<close>: componentwise division.\<close>

definition vdivs :: "vec3 \<Rightarrow> real \<Rightarrow> vec3 option" where
  "vdivs v k = (if k = 0 then None else Some (Vec3 (vx v / k) (vy v / k) (vz v / k)))"

definition dot :: "vec3 \<Rightarrow> vec3 \<Rightarrow> real" where
  "dot a b = vx a * vx b + vy a * vy b + vz a * vz b"

text \<open>\<^verbatim>\<open>length(v)\<close>, the Euclidean norm.\<close>

definition length_v :: "vec3 \<Rightarrow> real" where
  "length_v v = sqrt (vx v * vx v + vy v * vy v + vz v * vz v)"

text \<open>\<^verbatim>\<open>reflect(I, N)\<close> is \<open>I - 2 * dot(N, I) * N\<close> in the GLSL specification.\<close>

definition reflect :: "vec3 \<Rightarrow> vec3 \<Rightarrow> vec3" where
  "reflect i n = vsub i (vmuls n (2 * dot n i))"

text \<open>
  \<^verbatim>\<open>atan(y, x)\<close>: the angle of the point \<open>(x, y)\<close>, in \<open>(-pi, pi]\<close>, with the quadrant
  taken from the signs of both arguments. At \<open>(0, 0)\<close> GLSL fixes no value, but the call
  still returns one and the shader samples with it; the value here is \<open>0\<close>, the one
  \<^verbatim>\<open>atan2(0, 0)\<close> has in C and in JavaScript.
\<close>

definition atan_yx :: "real \<Rightarrow> real \<Rightarrow> real" where
  "atan_yx b a =
     (if 0 < a then arctan (b / a)
      else if a < 0 then (if 0 \<le> b then arctan (b / a) + pi else arctan (b / a) - pi)
      else if 0 < b then pi / 2
      else if b < 0 then - (pi / 2)
      else 0)"

text \<open>\<^verbatim>\<open>acos(x)\<close>: in \<open>[0, pi]\<close>; undefined when \<open>|x| > 1\<close>.\<close>

definition acos :: "real \<Rightarrow> real option" where
  "acos a = (if \<bar>a\<bar> \<le> 1 then Some (arccos a) else None)"

text \<open>A texture is the function from normalised coordinates to texels.\<close>

type_synonym sampler2D = "real \<times> real \<Rightarrow> vec4"

definition texture2D :: "sampler2D \<Rightarrow> real \<times> real \<Rightarrow> vec4" where
  "texture2D tex uv = tex uv"

subsection \<open>intersectDisc\<close>

text \<open>
  The parameters of \<^verbatim>\<open>intersectDisc\<close> are its local variables: the body may assign to any
  of them. Only \<open>s\<close> is \<^verbatim>\<open>inout\<close>, so only \<open>s\<close> is copied back to the caller.
\<close>

record intersectDisc_args =
  arg_s :: vec3
  arg_d :: vec3
  arg_c :: vec3
  arg_nHat :: vec3
  arg_r :: real

definition intersectDisc_body ::
  "intersectDisc_args \<Rightarrow> (bool \<times> intersectDisc_args) option" where
  "intersectDisc_body a =
     (let deltaN = dot (vsub (arg_c a) (arg_s a)) (arg_nHat a);
          dN = dot (arg_d a) (arg_nHat a)
      in if dN * deltaN > 0 then
           (case vdivs (arg_d a) dN of
              None \<Rightarrow> None
            | Some q \<Rightarrow>
                (let i = vadd (arg_s a) (vmuls q deltaN)
                 in if length_v (vsub i (arg_c a)) \<le> arg_r a
                    then Some (True, a\<lparr>arg_s := i\<rparr>)
                    else Some (False, a)))
         else Some (False, a))"

text \<open>The call: the returned boolean and the value copied out to the \<^verbatim>\<open>inout\<close> argument.\<close>

definition intersectDisc ::
  "vec3 \<Rightarrow> vec3 \<Rightarrow> vec3 \<Rightarrow> vec3 \<Rightarrow> real \<Rightarrow> (bool \<times> vec3) option" where
  "intersectDisc s d c nHat r =
     (case intersectDisc_body \<lparr>arg_s = s, arg_d = d, arg_c = c, arg_nHat = nHat, arg_r = r\<rparr> of
        None \<Rightarrow> None
      | Some (hit, a) \<Rightarrow> Some (hit, arg_s a))"

subsection \<open>getColorOfBackground\<close>

text \<open>\<^verbatim>\<open>#define PI 3.1415926538\<close>\<close>

definition PI :: real where
  "PI = 3.1415926538"

text \<open>The two angles \<open>(phi, theta)\<close> that \<^verbatim>\<open>getColorOfBackground\<close> computes from \<open>d\<close>.\<close>

definition getColorOfBackground_angles :: "vec3 \<Rightarrow> (real \<times> real) option" where
  "getColorOfBackground_angles d =
     (let l = length_v d;
          phi = atan_yx (vz d) (vx d) + PI
      in case fdiv (vy d) l of
           None \<Rightarrow> None
         | Some q \<Rightarrow>
             (case acos q of
                None \<Rightarrow> None
              | Some theta \<Rightarrow> Some (phi, theta)))"

text \<open>The texture coordinates of the texel it returns.\<close>

definition getColorOfBackground_uv :: "vec3 \<Rightarrow> (real \<times> real) option" where
  "getColorOfBackground_uv d =
     (case getColorOfBackground_angles d of
        None \<Rightarrow> None
      | Some (phi, theta) \<Rightarrow> Some (phi / (2 * PI), 1 - theta / PI))"

definition getColorOfBackground :: "sampler2D \<Rightarrow> vec3 \<Rightarrow> vec4 option" where
  "getColorOfBackground backgroundTexture d =
     (case getColorOfBackground_uv d of
        None \<Rightarrow> None
      | Some uv \<Rightarrow> Some (texture2D backgroundTexture uv))"

subsection \<open>main\<close>

text \<open>
  The fragment shader's \<^verbatim>\<open>main\<close>, as a function of the uniform \<open>backgroundTexture\<close>, the
  built-in uniform \<open>cameraPosition\<close> and the varying \<open>intersectionPoint\<close>; the result is
  the value assigned to \<^verbatim>\<open>gl_FragColor\<close>.
\<close>

definition main :: "sampler2D \<Rightarrow> vec3 \<Rightarrow> vec3 \<Rightarrow> vec4 option" where
  "main backgroundTexture cameraPosition intersectionPoint =
     (let s = cameraPosition;
          d = vsub intersectionPoint cameraPosition;
          nHat = Vec3 1 0 0
      in case intersectDisc s d (Vec3 3 0 0) nHat 1 of
           None \<Rightarrow> None
         | Some (hit, s') \<Rightarrow>
             (let d' = (if hit then reflect d nHat else d)
              in getColorOfBackground backgroundTexture d'))"

subsection \<open>The terms of the arctangent series\<close>

text \<open>
  The shader's constant \<open>PI\<close> is a decimal literal, so comparing it with \<open>pi\<close> needs a
  numeric bound on \<open>pi\<close>. The bound comes from Machin's formula and the alternating
  series of the arctangent, whose \<open>n\<close>-th term (without its sign) is \<open>arctan_term u n\<close>.
\<close>

definition arctan_term :: "real \<Rightarrow> nat \<Rightarrow> real" where
  "arctan_term u n = 1 / real (n * 2 + 1) * u ^ (n * 2 + 1)"

section \<open>The disc intersection test\<close>

lemma intersectDisc_body_eq:
  "intersectDisc_body a =
     (let deltaN = dot (vsub (arg_c a) (arg_s a)) (arg_nHat a);
          dN = dot (arg_d a) (arg_nHat a);
          i = vadd (arg_s a) (vmuls (arg_d a) (deltaN / dN))
      in if dN * deltaN > 0 \<and> length_v (vsub i (arg_c a)) \<le> arg_r a
         then Some (True, a\<lparr>arg_s := i\<rparr>) else Some (False, a))"
proof (cases "dot (arg_d a) (arg_nHat a) * dot (vsub (arg_c a) (arg_s a)) (arg_nHat a) > 0")
  case True
  then have nz: "dot (arg_d a) (arg_nHat a) \<noteq> 0" by auto
  show ?thesis
    using True nz by (simp add: intersectDisc_body_def Let_def vdivs_def vmuls_def)
next
  case False
  then show ?thesis by (simp add: intersectDisc_body_def Let_def)
qed

text \<open>The test never evaluates a division by zero: it always returns.\<close>

lemma intersectDisc_defined: "intersectDisc s d c nHat r \<noteq> None"
  by (auto simp: intersectDisc_def intersectDisc_body_eq Let_def)

lemma dot_plane_point:
  "dot (vsub (vadd s (vmuls d k)) c) n = k * dot d n - dot (vsub c s) n"
  by (simp add: dot_def vsub_def vadd_def vmuls_def algebra_simps)

lemma sqrt_16: "sqrt 16 = 4"
proof -
  have "sqrt 16 = sqrt (4\<^sup>2)" by simp
  also have "\<dots> = \<bar>4\<bar>" by (rule real_sqrt_abs)
  finally show ?thesis by simp
qed

text \<open>
  C1: with \<open>deltaN = dot(c - s, nHat)\<close> and \<open>dN = dot(d, nHat)\<close>, \<open>intersectDisc\<close> returns a
  hit exactly when \<open>dN * deltaN > 0\<close> and the plane point \<open>i = s + d * (deltaN / dN)\<close>
  satisfies \<open>|i - c| \<le> r\<close> (equality included); the hit hands back \<open>i\<close>, every other
  case hands back \<open>s\<close>.
\<close>

theorem intersectDisc_contract:
  "intersectDisc s d c nHat r =
     (let deltaN = dot (vsub c s) nHat;
          dN = dot d nHat;
          i = vadd s (vmuls d (deltaN / dN))
      in if dN * deltaN > 0 \<and> length_v (vsub i c) \<le> r
         then Some (True, i) else Some (False, s))"
  by (simp add: intersectDisc_def intersectDisc_body_eq Let_def)

text \<open>
  C3: when \<open>intersectDisc\<close> returns true, \<open>s\<close> holds the intersection point; when it
  returns false, \<open>s\<close> holds its value on entry; \<open>d\<close>, \<open>c\<close>, \<open>nHat\<close> and \<open>r\<close> hold their
  values on entry in both cases; and the caller receives the returned boolean with the
  final \<open>s\<close>.
\<close>

theorem intersectDisc_frame:
  "\<exists>hit a'. intersectDisc_body a = Some (hit, a')
     \<and> arg_d a' = arg_d a \<and> arg_c a' = arg_c a \<and> arg_nHat a' = arg_nHat a \<and> arg_r a' = arg_r a
     \<and> arg_s a' =
         (if hit
          then vadd (arg_s a)
                 (vmuls (arg_d a)
                    (dot (vsub (arg_c a) (arg_s a)) (arg_nHat a) / dot (arg_d a) (arg_nHat a)))
          else arg_s a)
     \<and> intersectDisc (arg_s a) (arg_d a) (arg_c a) (arg_nHat a) (arg_r a) = Some (hit, arg_s a')"
  by (auto simp: intersectDisc_def intersectDisc_body_eq Let_def)

text \<open>
  C4: for a ray parallel to the disc plane (\<open>dot(d, nHat) = 0\<close>), \<open>intersectDisc\<close> returns
  false with \<open>s\<close> untouched, and it returns a value: the division by \<open>dN\<close>, which would
  give no finite result, is not evaluated.
\<close>

theorem intersectDisc_parallel:
  "dot d nHat = 0 \<Longrightarrow> intersectDisc s d c nHat r = Some (False, s)"
  by (simp add: intersectDisc_def intersectDisc_body_def Let_def)

theorem intersectDisc_parallel_witness:
  "dot (Vec3 0 1 0) (Vec3 1 0 0) = 0
   \<and> intersectDisc (Vec3 5 0 0) (Vec3 0 1 0) (Vec3 3 0 0) (Vec3 1 0 0) 1 = Some (False, Vec3 5 0 0)"
proof -
  have h: "dot (Vec3 0 1 0) (Vec3 1 0 0) = 0" by (simp add: dot_def)
  show ?thesis
    using h intersectDisc_parallel [OF h, of "Vec3 5 0 0" "Vec3 3 0 0" 1] by simp
qed

text \<open>
  C6: the point \<open>i\<close> that an accepted ray hands back lies in the disc's plane,
  \<open>dot(i - c, nHat) = 0\<close>, and within the radius, \<open>|i - c| \<le> r\<close>.
\<close>

theorem intersectDisc_hit_point:
  assumes "intersectDisc s d c nHat r = Some (True, i)"
  shows "dot (vsub i c) nHat = 0 \<and> length_v (vsub i c) \<le> r"
proof -
  let ?deltaN = "dot (vsub c s) nHat"
  let ?dN = "dot d nHat"
  let ?i = "vadd s (vmuls d (?deltaN / ?dN))"
  from assms have fwd: "?dN * ?deltaN > 0" and len: "length_v (vsub ?i c) \<le> r" and i: "i = ?i"
    by (auto simp: intersectDisc_def intersectDisc_body_eq Let_def split: if_splits)
  from fwd have nz: "?dN \<noteq> 0" by auto
  have "dot (vsub ?i c) nHat = (?deltaN / ?dN) * ?dN - ?deltaN"
    by (rule dot_plane_point)
  also have "\<dots> = 0" using nz by simp
  finally show ?thesis using len i by simp
qed

theorem intersectDisc_hit_point_witness:
  "intersectDisc (Vec3 7 (- (1 / 2)) 0) (Vec3 (- 4) 1 0) (Vec3 3 0 0) (Vec3 1 0 0) 1
     = Some (True, Vec3 3 (1 / 2) 0)
   \<and> dot (vsub (Vec3 3 (1 / 2) 0) (Vec3 3 0 0)) (Vec3 1 0 0) = 0
   \<and> length_v (vsub (Vec3 3 (1 / 2) 0) (Vec3 3 0 0)) \<le> 1"
proof -
  have h: "intersectDisc (Vec3 7 (- (1 / 2)) 0) (Vec3 (- 4) 1 0) (Vec3 3 0 0) (Vec3 1 0 0) 1
             = Some (True, Vec3 3 (1 / 2) 0)"
    by (simp add: intersectDisc_def intersectDisc_body_def Let_def dot_def vsub_def vadd_def
        vmuls_def vdivs_def length_v_def)
  show ?thesis using h intersectDisc_hit_point [OF h] by simp
qed

text \<open>
  C7: for the shader's disc (centre \<open>(3,0,0)\<close>, normal \<open>(1,0,0)\<close>, radius \<open>1\<close>) the ray from
  \<open>(0,10,0)\<close> with direction \<open>(5,-10,0)\<close> is no hit, although it crosses the plane forward
  (\<open>dN * deltaN > 0\<close>): the plane point is \<open>(3,4,0)\<close>, at distance \<open>4\<close> from the centre.
\<close>

theorem scenario3_no_hit:
  "intersectDisc (Vec3 0 10 0) (Vec3 5 (- 10) 0) (Vec3 3 0 0) (Vec3 1 0 0) 1
     = Some (False, Vec3 0 10 0)
   \<and> dot (Vec3 5 (- 10) 0) (Vec3 1 0 0) * dot (vsub (Vec3 3 0 0) (Vec3 0 10 0)) (Vec3 1 0 0) > 0
   \<and> vadd (Vec3 0 10 0)
        (vmuls (Vec3 5 (- 10) 0)
           (dot (vsub (Vec3 3 0 0) (Vec3 0 10 0)) (Vec3 1 0 0) / dot (Vec3 5 (- 10) 0) (Vec3 1 0 0)))
       = Vec3 3 4 0
   \<and> length_v (vsub (Vec3 3 4 0) (Vec3 3 0 0)) = 4"
  by (simp add: intersectDisc_def intersectDisc_body_def Let_def dot_def vsub_def vadd_def
      vmuls_def vdivs_def length_v_def sqrt_16)

text \<open>
  C10: for a ray that starts on the disc's plane (\<open>dot(c - s, nHat) = 0\<close>),
  \<open>intersectDisc\<close> returns false and leaves \<open>s\<close> as it was, whatever the direction.
\<close>

theorem intersectDisc_start_on_plane:
  "dot (vsub c s) nHat = 0 \<Longrightarrow> intersectDisc s d c nHat r = Some (False, s)"
  by (simp add: intersectDisc_def intersectDisc_body_def Let_def)

theorem intersectDisc_start_on_plane_witness:
  "dot (vsub (Vec3 3 0 0) (Vec3 3 (1 / 2) 0)) (Vec3 1 0 0) = 0
   \<and> intersectDisc (Vec3 3 (1 / 2) 0) (Vec3 1 0 0) (Vec3 3 0 0) (Vec3 1 0 0) 1
       = Some (False, Vec3 3 (1 / 2) 0)"
proof -
  have h: "dot (vsub (Vec3 3 0 0) (Vec3 3 (1 / 2) 0)) (Vec3 1 0 0) = 0"
    by (simp add: dot_def vsub_def)
  show ?thesis
    using h intersectDisc_start_on_plane [OF h, of "Vec3 1 0 0" 1] by simp
qed

section \<open>A numeric bound on \<open>pi\<close>\<close>

lemma arctan_term_nonneg: "0 \<le> u \<Longrightarrow> 0 \<le> arctan_term u n"
  by (simp add: arctan_term_def)

lemma arctan_term_decreasing:
  assumes "0 \<le> u" "u \<le> 1"
  shows "arctan_term u (Suc n) \<le> arctan_term u n"
proof -
  have p: "u ^ (Suc n * 2 + 1) \<le> u ^ (n * 2 + 1)"
    using assms by (intro power_decreasing) auto
  have q: "1 / real (Suc n * 2 + 1) \<le> 1 / real (n * 2 + 1)"
    by (intro divide_left_mono) auto
  show ?thesis
    unfolding arctan_term_def using assms by (intro mult_mono p q) auto
qed

lemma arctan_term_tendsto: "\<bar>u\<bar> \<le> 1 \<Longrightarrow> arctan_term u \<longlonglongrightarrow> 0"
  using zeroseq_arctan_series [of u] by (simp add: arctan_term_def [abs_def])

lemma arctan_eq_suminf: "\<bar>u\<bar> \<le> 1 \<Longrightarrow> arctan u = (\<Sum>k. (- 1) ^ k * arctan_term u k)"
  using arctan_series [of u] by (simp add: arctan_term_def)

lemma arctan_upper:
  assumes "0 \<le> u" "u \<le> 1"
  shows "arctan u \<le> (\<Sum>i<2 * n + 1. (- 1) ^ i * arctan_term u i)"
proof -
  have "\<bar>u\<bar> \<le> 1" using assms by simp
  then show ?thesis
    using summable_Leibniz'(4) [of "arctan_term u" n]
      arctan_term_tendsto [of u] arctan_term_nonneg [of u] arctan_term_decreasing [of u] assms
    by (simp add: arctan_eq_suminf)
qed

lemma arctan_lower:
  assumes "0 \<le> u" "u \<le> 1"
  shows "(\<Sum>i<2 * n. (- 1) ^ i * arctan_term u i) \<le> arctan u"
proof -
  have "\<bar>u\<bar> \<le> 1" using assms by simp
  then show ?thesis
    using summable_Leibniz'(2) [of "arctan_term u" n]
      arctan_term_tendsto [of u] arctan_term_nonneg [of u] arctan_term_decreasing [of u] assms
    by (simp add: arctan_eq_suminf)
qed

lemma arctan_fifth_upper: "arctan (1 / 5) \<le> 0.1973955598521"
proof -
  have "arctan (1 / 5) \<le> (\<Sum>i<2 * 3 + 1. (- 1) ^ i * arctan_term (1 / 5) i)"
    by (rule arctan_upper) auto
  also have "\<dots> \<le> 0.1973955598521"
    by (simp add: arctan_term_def lessThan_Suc eval_nat_numeral)
  finally show ?thesis .
qed

lemma arctan_239_lower: "0.0041840760018 \<le> arctan (1 / 239)"
proof -
  have "0.0041840760018 \<le> (\<Sum>i<2 * 1. (- 1) ^ i * arctan_term (1 / 239) i)"
    by (simp add: arctan_term_def lessThan_Suc eval_nat_numeral)
  also have "\<dots> \<le> arctan (1 / 239)"
    by (rule arctan_lower) auto
  finally show ?thesis .
qed

lemma pi_less_PI_literal: "pi < 3.1415926538"
proof -
  have "pi = 16 * arctan (1 / 5) - 4 * arctan (1 / 239)"
    using machin by simp
  also have "\<dots> \<le> 16 * 0.1973955598521 - 4 * 0.0041840760018"
    using arctan_fifth_upper arctan_239_lower by simp
  also have "\<dots> < 3.1415926538"
    by simp
  finally show ?thesis .
qed

section \<open>Background sampling\<close>

lemma pi_le_PI: "pi \<le> PI"
  using pi_less_PI_literal by (simp add: PI_def)

lemma pi_less_PI: "pi < PI"
  using pi_less_PI_literal by (simp add: PI_def)

lemma PI_pos: "0 < PI"
  by (simp add: PI_def)

lemma atan_yx_range: "- pi < atan_yx b a \<and> atan_yx b a \<le> pi"
proof -
  have bnd: "- (pi / 2) < arctan (b / a)" "arctan (b / a) < pi / 2"
    by (rule arctan_lbound, rule arctan_ubound)
  have p: "0 < pi" by (rule pi_gt_zero)
  consider (pos) "0 < a" | (negpos) "a < 0" "0 \<le> b" | (negneg) "a < 0" "b < 0"
    | (up) "a = 0" "0 < b" | (down) "a = 0" "b < 0" | (origin) "a = 0" "b = 0"
    by linarith
  then show ?thesis
  proof cases
    case pos
    then have "atan_yx b a = arctan (b / a)" by (simp add: atan_yx_def)
    then show ?thesis using bnd p by linarith
  next
    case negpos
    then have "b / a \<le> 0" by (simp add: divide_nonneg_neg)
    then have "arctan (b / a) \<le> 0" by simp
    moreover have "atan_yx b a = arctan (b / a) + pi" using negpos by (simp add: atan_yx_def)
    ultimately show ?thesis using bnd p by linarith
  next
    case negneg
    then have "0 < b / a" by (simp add: divide_neg_neg)
    then have "0 < arctan (b / a)" by simp
    moreover have "atan_yx b a = arctan (b / a) - pi" using negneg by (simp add: atan_yx_def)
    ultimately show ?thesis using bnd p by linarith
  next
    case up
    then have "atan_yx b a = pi / 2" by (simp add: atan_yx_def)
    then show ?thesis using p by linarith
  next
    case down
    then have "atan_yx b a = - (pi / 2)" by (simp add: atan_yx_def)
    then show ?thesis using p by linarith
  next
    case origin
    then have "atan_yx b a = 0" by (simp add: atan_yx_def)
    then show ?thesis using p by linarith
  qed
qed

lemma length_v_pos:
  assumes "d \<noteq> Vec3 0 0 0"
  shows "0 < length_v d"
proof -
  have nz: "vx d \<noteq> 0 \<or> vy d \<noteq> 0 \<or> vz d \<noteq> 0"
    using assms by (cases d) auto
  have sq: "0 \<le> vx d * vx d" "0 \<le> vy d * vy d" "0 \<le> vz d * vz d"
    by simp_all
  have "0 < vx d * vx d \<or> 0 < vy d * vy d \<or> 0 < vz d * vz d"
    using nz by (simp add: zero_less_mult_iff) linarith
  then have "0 < vx d * vx d + vy d * vy d + vz d * vz d"
    using sq by linarith
  then show ?thesis by (simp add: length_v_def)
qed

lemma abs_vy_le_length_v: "\<bar>vy d\<bar> \<le> length_v d"
proof -
  have "(vy d)\<^sup>2 \<le> vx d * vx d + vy d * vy d + vz d * vz d"
    by (simp add: power2_eq_square)
  then have "sqrt ((vy d)\<^sup>2) \<le> length_v d"
    unfolding length_v_def by (rule real_sqrt_le_mono)
  then show ?thesis by simp
qed

lemma polar_quotient_range:
  assumes "0 < length_v d"
  shows "\<bar>vy d / length_v d\<bar> \<le> 1"
  using assms abs_vy_le_length_v [of d] by (simp add: field_simps)

lemma getColorOfBackground_angles_defined:
  assumes "d \<noteq> Vec3 0 0 0"
  shows "getColorOfBackground_angles d
           = Some (atan_yx (vz d) (vx d) + PI, arccos (vy d / length_v d))"
proof -
  have l: "0 < length_v d" using assms by (rule length_v_pos)
  have q: "\<bar>vy d / length_v d\<bar> \<le> 1" using l by (rule polar_quotient_range)
  show ?thesis
    using l q by (simp add: getColorOfBackground_angles_def Let_def fdiv_def acos_def)
qed

lemma angles_minus_x:
  "getColorOfBackground_angles (Vec3 (- 1) 0 0) = Some (pi + PI, pi / 2)"
  by (simp add: getColorOfBackground_angles_def Let_def atan_yx_def length_v_def fdiv_def acos_def)

text \<open>
  Straight up, along \<open>(0, 1, 0)\<close>, the lookup is at the coordinates \<open>(1/2, 1)\<close>:
  \<open>phi = PI\<close> and \<open>theta = 0\<close>.
\<close>

lemma uv_straight_up: "getColorOfBackground_uv (Vec3 0 1 0) = Some (1 / 2, 1)"
  using PI_pos
  by (simp add: getColorOfBackground_uv_def getColorOfBackground_angles_def Let_def atan_yx_def
      length_v_def fdiv_def acos_def)

text \<open>
  C2, as the code has it: for every non-zero direction \<open>d\<close>, \<open>getColorOfBackground\<close>
  computes \<open>phi = atan(d.z, d.x) + PI\<close> with \<open>phi\<close> in the closed range \<open>[0, 2 * PI]\<close>, and
  \<open>theta = acos(d.y / |d|)\<close> with \<open>theta\<close> in \<open>[0, pi]\<close>, samples the texture at
  \<open>(phi / (2 * PI), 1 - theta / PI)\<close>, and both coordinates lie in \<open>[0, 1]\<close>.
\<close>

theorem getColorOfBackground_in_range:
  assumes "d \<noteq> Vec3 0 0 0"
  shows "\<exists>phi theta.
           getColorOfBackground_angles d = Some (phi, theta)
           \<and> phi = atan_yx (vz d) (vx d) + PI \<and> 0 \<le> phi \<and> phi \<le> 2 * PI
           \<and> theta = arccos (vy d / length_v d) \<and> 0 \<le> theta \<and> theta \<le> pi
           \<and> getColorOfBackground_uv d = Some (phi / (2 * PI), 1 - theta / PI)
           \<and> getColorOfBackground tex d = Some (tex (phi / (2 * PI), 1 - theta / PI))
           \<and> 0 \<le> phi / (2 * PI) \<and> phi / (2 * PI) \<le> 1
           \<and> 0 \<le> 1 - theta / PI \<and> 1 - theta / PI \<le> 1"
proof -
  let ?phi = "atan_yx (vz d) (vx d) + PI"
  let ?theta = "arccos (vy d / length_v d)"
  have ang: "getColorOfBackground_angles d = Some (?phi, ?theta)"
    using assms by (rule getColorOfBackground_angles_defined)
  have t: "- pi < atan_yx (vz d) (vx d)" "atan_yx (vz d) (vx d) \<le> pi"
    using atan_yx_range [of "vz d" "vx d"] by simp_all
  have l: "0 < length_v d" using assms by (rule length_v_pos)
  have q: "\<bar>vy d / length_v d\<bar> \<le> 1" using l by (rule polar_quotient_range)
  have q2: "- 1 \<le> vy d / length_v d" "vy d / length_v d \<le> 1"
    using q by arith+
  have th: "0 \<le> ?theta" "?theta \<le> pi"
    using q2 by (rule arccos_lbound, rule arccos_ubound)
  have phi: "0 \<le> ?phi" "?phi \<le> 2 * PI"
    using t pi_le_PI by simp_all
  have u: "0 \<le> ?phi / (2 * PI)" "?phi / (2 * PI) \<le> 1"
    using phi PI_pos by simp_all
  have "?theta / PI \<le> 1" "0 \<le> ?theta / PI"
    using th pi_le_PI PI_pos by simp_all
  then have v: "0 \<le> 1 - ?theta / PI" "1 - ?theta / PI \<le> 1" by simp_all
  have uv: "getColorOfBackground_uv d = Some (?phi / (2 * PI), 1 - ?theta / PI)"
    by (simp add: getColorOfBackground_uv_def ang)
  have col: "getColorOfBackground tex d = Some (tex (?phi / (2 * PI), 1 - ?theta / PI))"
    by (simp add: getColorOfBackground_def uv texture2D_def)
  show ?thesis
    using ang phi th u v uv col by (intro exI [of _ ?phi] exI [of _ ?theta]) simp
qed

theorem getColorOfBackground_in_range_witness:
  "vy (Vec3 0 1 0) = 1
   \<and> (\<exists>u v. getColorOfBackground_uv (Vec3 0 1 0) = Some (u, v)
          \<and> getColorOfBackground (\<lambda>uv. Vec4 (fst uv) (snd uv) 0 1) (Vec3 0 1 0) = Some (Vec4 u v 0 1)
          \<and> 0 \<le> u \<and> u \<le> 1 \<and> 0 \<le> v \<and> v \<le> 1)"
proof -
  have h: "Vec3 0 1 0 \<noteq> Vec3 0 0 0" by simp
  from getColorOfBackground_in_range [OF h, of "\<lambda>uv. Vec4 (fst uv) (snd uv) 0 1"]
  show ?thesis by auto
qed

text \<open>
  C2, as the claim states it, fails: along \<open>(-1, 0, 0)\<close> the azimuth is \<open>pi\<close>, the closed
  end of the range of \<^verbatim>\<open>atan\<close>, so \<open>phi = pi + PI\<close>, which is not below \<open>2 * pi\<close> (it lies
  above it, the constant \<open>PI\<close> being larger than \<open>pi\<close>).
\<close>

theorem getColorOfBackground_phi_counterexample:
  "getColorOfBackground_angles (Vec3 (- 1) 0 0) = Some (pi + PI, pi / 2)
   \<and> \<not> (pi + PI < 2 * pi)
   \<and> 2 * pi < pi + PI"
  using pi_less_PI by (simp add: angles_minus_x)

section \<open>Reflection\<close>

lemma reflect_twice:
  "reflect (reflect d n) n = vadd d (vmuls n (4 * dot n d * (dot n n - 1)))"
  by (cases d; cases n) (simp add: reflect_def dot_def vsub_def vmuls_def vadd_def algebra_simps)

lemma reflect_x_axis: "reflect d (Vec3 1 0 0) = Vec3 (- vx d) (vy d) (vz d)"
  by (simp add: reflect_def dot_def vsub_def vmuls_def)

lemma length_v_reflect_x_axis: "length_v (reflect d (Vec3 1 0 0)) = length_v d"
  by (simp add: reflect_x_axis length_v_def)

text \<open>
  C8: for a unit normal \<open>n\<close>, reflecting twice about \<open>n\<close> gives the direction back.
\<close>

theorem reflect_involutive:
  "dot n n = 1 \<Longrightarrow> reflect (reflect d n) n = d"
  by (cases d) (simp add: reflect_twice vadd_def vmuls_def)

theorem reflect_involutive_witness:
  "dot (Vec3 1 0 0) (Vec3 1 0 0) = 1
   \<and> reflect (reflect (Vec3 2 (- 3) 5) (Vec3 1 0 0)) (Vec3 1 0 0) = Vec3 2 (- 3) 5"
proof -
  have h: "dot (Vec3 1 0 0) (Vec3 1 0 0) = 1" by (simp add: dot_def)
  show ?thesis using h reflect_involutive [OF h, of "Vec3 2 (- 3) 5"] by simp
qed

text \<open>
  C5: \<open>main\<close> looks the background up along \<open>d - 2 * dot(d, nHat) * nHat\<close> when the disc test
  accepts, and along \<open>d\<close> itself when it rejects, where \<open>d = intersectionPoint -
  cameraPosition\<close>. The reflected direction is used as it is: it has the length of \<open>d\<close>.
\<close>

theorem main_reflects_on_hit:
  "(let d = vsub intersectionPoint cameraPosition;
        nHat = Vec3 1 0 0
    in \<exists>hit s'.
         intersectDisc cameraPosition d (Vec3 3 0 0) nHat 1 = Some (hit, s')
         \<and> main backgroundTexture cameraPosition intersectionPoint =
             getColorOfBackground backgroundTexture
               (if hit then vsub d (vmuls nHat (2 * dot d nHat)) else d)
         \<and> length_v (vsub d (vmuls nHat (2 * dot d nHat))) = length_v d)"
proof -
  let ?d = "vsub intersectionPoint cameraPosition"
  let ?n = "Vec3 1 0 0"
  obtain hit s' where h: "intersectDisc cameraPosition ?d (Vec3 3 0 0) ?n 1 = Some (hit, s')"
    using intersectDisc_defined [of cameraPosition ?d "Vec3 3 0 0" ?n 1] by auto
  have r: "vsub ?d (vmuls ?n (2 * dot ?d ?n)) = reflect ?d ?n"
    by (simp add: reflect_def dot_def mult.commute)
  have m: "main backgroundTexture cameraPosition intersectionPoint =
             getColorOfBackground backgroundTexture (if hit then reflect ?d ?n else ?d)"
    by (simp add: main_def Let_def h)
  show ?thesis
    unfolding Let_def using h m by (simp only: r length_v_reflect_x_axis) blast
qed

end
